theory Spec2Isabelle
  imports Main
begin

section \<open>Strings of the host language\<close>

text \<open>
  The program is JavaScript. Its strings are modelled as \<open>string\<close> (lists of
  characters) and are read as ASCII text: the letters that have a case are
  \<open>A\<close>..\<open>Z\<close> and \<open>a\<close>..\<open>z\<close>, the white space of \<open>trim\<close> and of the class
  \<open>\s\<close> is tab, line feed, vertical tab, form feed, carriage return, space and
  the no-break space (0xA0). The other characters above 0x7F are carried along
  unchanged.
\<close>

definition upperAZ :: string where
  "upperAZ = ''ABCDEFGHIJKLMNOPQRSTUVWXYZ''"

definition lowerAZ :: string where
  "lowerAZ = ''abcdefghijklmnopqrstuvwxyz''"

definition digits09 :: string where
  "digits09 = ''0123456789''"

definition isUpper :: "char \<Rightarrow> bool" where
  "isUpper c = (c \<in> set upperAZ)"

definition isLower :: "char \<Rightarrow> bool" where
  "isLower c = (c \<in> set lowerAZ)"

definition isDigit :: "char \<Rightarrow> bool" where
  "isDigit c = (c \<in> set digits09)"

definition isWs :: "char \<Rightarrow> bool" where
  "isWs c = (c \<in> set [CHR 0x09, CHR 0x0A, CHR 0x0B, CHR 0x0C, CHR 0x0D, CHR '' '', CHR 0xA0])"

definition lowerChar :: "char \<Rightarrow> char" where
  "lowerChar c = (case map_of (zip upperAZ lowerAZ) c of None \<Rightarrow> c | Some d \<Rightarrow> d)"

definition upperChar :: "char \<Rightarrow> char" where
  "upperChar c = (case map_of (zip lowerAZ upperAZ) c of None \<Rightarrow> c | Some d \<Rightarrow> d)"

definition toLowerCase :: "string \<Rightarrow> string" where
  "toLowerCase s = map lowerChar s"

definition toUpperCase :: "string \<Rightarrow> string" where
  "toUpperCase s = map upperChar s"

definition trim :: "string \<Rightarrow> string" where
  "trim s = dropWhile isWs (rev (dropWhile isWs (rev s)))"

text \<open>\<open>s.split(d)\<close> for a one-character separator: never the empty list.\<close>

fun splitOn :: "char \<Rightarrow> string \<Rightarrow> string list" where
  "splitOn d [] = [[]]"
| "splitOn d (c # cs) =
     (if c = d then [] # splitOn d cs
      else (case splitOn d cs of [] \<Rightarrow> [[c]] | w # ws \<Rightarrow> (c # w) # ws))"

text \<open>\<open>xs.join(d)\<close> for a one-character separator.\<close>

fun joinWith :: "char \<Rightarrow> string list \<Rightarrow> string" where
  "joinWith d [] = []"
| "joinWith d [x] = x"
| "joinWith d (x # y # ys) = x @ d # joinWith d (y # ys)"

text \<open>\<open>a || b\<close> on strings: the empty string is the only falsy one.\<close>

definition orElse :: "string \<Rightarrow> string \<Rightarrow> string" where
  "orElse a b = (if a = [] then b else a)"

text \<open>\<open>s.charAt(0)\<close>: the empty string when \<open>s\<close> is empty.\<close>

definition charAt0 :: "string \<Rightarrow> string" where
  "charAt0 s = take 1 s"

text \<open>\<open>s.indexOf(p)\<close> with \<open>None\<close> for -1, and \<open>s.includes(p)\<close>.\<close>

fun indexOf :: "string \<Rightarrow> string \<Rightarrow> nat option" where
  "indexOf p [] = (if p = [] then Some 0 else None)"
| "indexOf p (c # cs) =
     (if take (length p) (c # cs) = p then Some 0 else map_option Suc (indexOf p cs))"

definition includesStr :: "string \<Rightarrow> string \<Rightarrow> bool" where
  "includesStr s p = (indexOf p s \<noteq> None)"

definition startsWith :: "string \<Rightarrow> string \<Rightarrow> bool" where
  "startsWith s p = (take (length p) s = p)"

definition endsWith :: "string \<Rightarrow> string \<Rightarrow> bool" where
  "endsWith s p = (length p \<le> length s \<and> drop (length s - length p) s = p)"

section \<open>Identifier normalizer (server/utils/normalizer.js)\<close>

text \<open>\<open>str.replace(/[^a-zA-Z0-9 ]/g, '')\<close>\<close>

definition keepAlnumSpace :: "string \<Rightarrow> string" where
  "keepAlnumSpace s = filter (\<lambda>c. isLower c \<or> isUpper c \<or> isDigit c \<or> c = CHR '' '') s"

definition capitalize :: "string \<Rightarrow> string" where
  "capitalize w = toUpperCase (charAt0 w) @ drop 1 w"

definition toPascalCase :: "string \<Rightarrow> string" where
  "toPascalCase str =
     concat (map capitalize (filter (\<lambda>w. w \<noteq> []) (splitOn (CHR '' '') (keepAlnumSpace str))))"

definition toCamelCase :: "string \<Rightarrow> string" where
  "toCamelCase str =
     (let pascal = toPascalCase str in toLowerCase (charAt0 pascal) @ drop 1 pascal)"

definition commonWords :: "string list" where
  "commonWords =
    [''a'', ''an'', ''the'', ''of'', ''in'', ''on'', ''at'', ''for'', ''with'', ''and'', ''or'',
     ''but'', ''is'', ''are'', ''was'', ''were'',
     ''be'', ''been'', ''being'', ''have'', ''has'', ''had'', ''do'', ''does'', ''did'', ''not'',
     ''no'', ''this'', ''that'', ''these'',
     ''those'', ''from'', ''to'', ''by'', ''as'', ''it'', ''its'', ''from'', ''into'', ''through'',
     ''during'', ''before'', ''after'',
     ''above'', ''below'', ''to'', ''from'', ''up'', ''down'', ''out'', ''in'', ''off'', ''on'',
     ''over'', ''under'', ''again'', ''further'',
     ''then'', ''once'', ''here'', ''there'', ''when'', ''where'', ''why'', ''how'', ''all'',
     ''any'', ''both'', ''each'', ''few'', ''more'',
     ''most'', ''other'', ''some'', ''such'', ''no'', ''nor'', ''only'', ''own'', ''same'', ''so'',
     ''than'', ''too'', ''very'', ''s'', ''t'',
     ''can'', ''will'', ''just'', ''don'', ''should'', ''now'',
     ''verify'', ''check'', ''ensure'', ''manage'', ''test'', ''scenario'', ''flow'',
     ''functionality'', ''page'', ''module'', ''system'']"

text \<open>\<open>.toLowerCase().replace(/[^a-z0-9\s]/g, '').split(' ').filter(...)\<close>\<close>

definition significantWords :: "string \<Rightarrow> string list" where
  "significantWords scenarioTitle =
     filter (\<lambda>w. length w > 2 \<and> w \<notin> set commonWords)
       (splitOn (CHR '' '')
          (filter (\<lambda>c. isLower c \<or> isDigit c \<or> isWs c) (toLowerCase scenarioTitle)))"

text \<open>
  The loop that concatenates words while the name stays under 25 characters; the
  accumulator is \<open>shortName\<close>, and the \<open>else\<close> branch is the \<open>break\<close>.
\<close>

fun combineWords :: "string \<Rightarrow> string list \<Rightarrow> string" where
  "combineWords shortName [] = shortName"
| "combineWords shortName (w # ws) =
     (let nextWordPascal = toPascalCase w in
      if length shortName + length nextWordPascal < 25
      then combineWords (shortName @ nextWordPascal) ws
      else (if shortName = [] then take (min (length w) 25) w else shortName))"

definition toShortFeatureName :: "string \<Rightarrow> string" where
  "toShortFeatureName scenarioTitle =
     (let ws = significantWords scenarioTitle in
      case ws of
        [] \<Rightarrow> orElse (toCamelCase (take (min (length scenarioTitle) 15) scenarioTitle))
                ''genericFeature''
      | w0 # _ \<Rightarrow> orElse (toCamelCase (combineWords [] ws))
                   (orElse (toCamelCase w0) ''genericFeature''))"

section \<open>Client copy of the normalizer (client/utils.js)\<close>






section \<open>Schema validator (server/utils/excelValidator.js)\<close>

text \<open>
  A cell of the sheet, as \<open>sheet_to_json\<close> with \<open>raw: false\<close> delivers it: a
  formatted string, or \<open>undefined\<close> for a cell that holds nothing. A row is an
  array of cells; reading past its end gives \<open>undefined\<close>.
\<close>

datatype cell = Str string | Undefined

text \<open>\<open>typeof x === 'string' ? x.trim() : ''\<close>\<close>

fun cellTrim :: "cell \<Rightarrow> string" where
  "cellTrim (Str s) = trim s"
| "cellTrim Undefined = []"

text \<open>\<open>row[index]\<close>, where \<open>None\<close> is the index -1 of a failed search.\<close>

definition cellAt :: "cell list \<Rightarrow> nat option \<Rightarrow> cell" where
  "cellAt row idx =
     (case idx of None \<Rightarrow> Undefined
      | Some i \<Rightarrow> if i < length row then row ! i else Undefined)"

text \<open>\<open>xs.indexOf(x)\<close> and \<open>xs.findIndex(h => h === x)\<close> on an array of strings.\<close>

fun indexOfHeader :: "string \<Rightarrow> string list \<Rightarrow> nat option" where
  "indexOfHeader x [] = None"
| "indexOfHeader x (h # hs) = (if h = x then Some 0 else map_option Suc (indexOfHeader x hs))"

datatype error =
    MissingColumn string
  | InvalidPriority nat string
  | NoValidScenario
  | HeaderRowEmpty

definition MANDATORY_HEADERS :: "string list" where
  "MANDATORY_HEADERS =
     [''Test Scenario'', ''Test Case Description'', ''Detail Steps'', ''Test Data'',
      ''Expected Result'', ''Testcase Priority'']"

definition trimHeaders :: "cell list \<Rightarrow> string list" where
  "trimHeaders headers = map cellTrim headers"

text \<open>The loop over \<open>MANDATORY_HEADERS\<close>: the first name that is absent is thrown.\<close>

fun checkMandatory :: "string list \<Rightarrow> string list \<Rightarrow> error option" where
  "checkMandatory trimmedHeaders [] = None"
| "checkMandatory trimmedHeaders (m # ms) =
     (if m \<notin> set trimmedHeaders then Some (MissingColumn m)
      else checkMandatory trimmedHeaders ms)"

text \<open>
  The loop over the data rows. The state is \<open>hasAtLeastOneValidScenario\<close> and
  \<open>lastValidScenarioTitle\<close>; \<open>i\<close> is the loop index. The two warnings it prints
  change nothing and are left out.
\<close>

fun validateRows ::
  "string list \<Rightarrow> nat \<Rightarrow> bool \<times> string option \<Rightarrow> cell list list \<Rightarrow> error + bool" where
  "validateRows ths i (hasValid, lastTitle) [] = Inr hasValid"
| "validateRows ths i (hasValid, lastTitle) (row # rows) =
     (let excelRowNumber = i + 2;
          scenarioTitle = cellTrim (cellAt row (indexOfHeader ''Test Scenario'' ths));
          currentScenarioTitle =
            (if scenarioTitle \<noteq> [] then scenarioTitle
             else (case lastTitle of Some t \<Rightarrow> t | None \<Rightarrow> []));
          lastTitle' = (if scenarioTitle \<noteq> [] then Some scenarioTitle else lastTitle);
          hasValid' = (if currentScenarioTitle = [] then hasValid else True);
          testcasePriority =
            toUpperCase (cellTrim (cellAt row (indexOfHeader ''Testcase Priority'' ths)))
      in if testcasePriority \<noteq> [] \<and> testcasePriority \<notin> set [''P1'', ''P2'', ''P3'']
         then Inl (InvalidPriority excelRowNumber testcasePriority)
         else validateRows ths (i + 1) (hasValid', lastTitle') rows)"

definition validateExcelSchema :: "cell list \<Rightarrow> cell list list \<Rightarrow> error + bool" where
  "validateExcelSchema headers dataRows =
     (let trimmedHeaders = trimHeaders headers in
      case checkMandatory trimmedHeaders MANDATORY_HEADERS of
        Some e \<Rightarrow> Inl e
      | None \<Rightarrow>
          (case validateRows trimmedHeaders 0 (False, None) dataRows of
             Inl e \<Rightarrow> Inl e
           | Inr hasAtLeastOneValidScenario \<Rightarrow>
               if \<not> hasAtLeastOneValidScenario \<and> dataRows \<noteq> [] then Inl NoValidScenario
               else Inr True))"

section \<open>Scenario grouping parser (server/utils/excelParser.js)\<close>

record analysis =
  action :: string
  target :: string
  validationType :: string
  expectedValue :: string
  url :: string

text \<open>
  A test case. \<open>expectedAnalysis\<close> is \<open>nlpAnalysis.expectedResult.analysis\<close>, which
  the enrichment step may attach later; the parser creates test cases without it. A
  field of the analysis that is missing is the empty string.
\<close>

record testCase =
  tcId :: string
  title :: string
  description :: string
  steps :: "string list"
  tcData :: string
  expected :: string
  priority :: string
  expectedAnalysis :: "analysis option"

record scenarioGroup =
  page :: string
  scenario :: string
  shortFeatureName :: string
  tests :: "testCase list"

datatype warning =
    SkippedNoScenario nat
  | SkippedEmptyTitle nat
  | SkippedNoPageName nat string
  | NothingGrouped
  | EmptyFile

text \<open>
  The state of the loop: the \<open>Map\<close> from short feature name to group, in insertion
  order, the carried title (\<open>None\<close> for \<open>null\<close>) and what was printed.
\<close>

record parserState =
  groupedMap :: "(string \<times> scenarioGroup) list"
  lastValidScenarioTitle :: "string option"
  printed :: "warning list"

definition digitChar :: "nat \<Rightarrow> char" where
  "digitChar d = digits09 ! d"

text \<open>The decimal text of a number, as a template literal prints it.\<close>

function showNat :: "nat \<Rightarrow> string" where
  "showNat n = (if n < 10 then [digitChar n] else showNat (n div 10) @ [digitChar (n mod 10)])"
  by pat_completeness auto
termination
  by (relation "measure id") auto

text \<open>
  \<open>rowObject\<close>: every trimmed header mapped to the trimmed text of the cell below it;
  of two columns with one header the later one wins.
\<close>

definition rowObject :: "string list \<Rightarrow> cell list \<Rightarrow> (string \<rightharpoonup> string)" where
  "rowObject ths rowArray =
     fold (\<lambda>(header, index) obj. obj(header \<mapsto> cellTrim (cellAt rowArray (Some index))))
       (zip ths [0 ..< length ths]) Map.empty"

text \<open>\<open>rowObject[h] || ''\<close>\<close>

definition field :: "(string \<rightharpoonup> string) \<Rightarrow> string \<Rightarrow> string" where
  "field obj h = (case obj h of None \<Rightarrow> [] | Some v \<Rightarrow> v)"

definition makeTestCase :: "string list \<Rightarrow> cell list \<Rightarrow> string \<Rightarrow> nat \<Rightarrow> testCase" where
  "makeTestCase ths rowArray determinedScenarioTitle n =
     (let obj = rowObject ths rowArray in
      \<lparr> tcId = field obj ''Test Case ID'',
        title = orElse (field obj ''Test Case Description'')
                  (''Test for '' @ determinedScenarioTitle @ '' - Case '' @ showNat (n + 1)),
        description = field obj ''Test Case Description'',
        steps = filter (\<lambda>s. s \<noteq> []) (map trim (splitOn (CHR 0x0A) (field obj ''Detail Steps''))),
        tcData = field obj ''Test Data'',
        expected = field obj ''Expected Result'',
        priority = toUpperCase (field obj ''Testcase Priority''),
        expectedAnalysis = None \<rparr>)"

text \<open>\<open>groupedMap.get(key).tests.push(tc)\<close>\<close>

definition pushTest ::
  "string \<Rightarrow> testCase \<Rightarrow> (string \<times> scenarioGroup) list \<Rightarrow> (string \<times> scenarioGroup) list" where
  "pushTest key tc m =
     map (\<lambda>(k, g). if k = key then (k, g\<lparr>tests := tests g @ [tc]\<rparr>) else (k, g)) m"

text \<open>
  The rest of the loop body once the title of the row is determined: the guard on the
  camel-case page name, the creation of a missing group, the new test case.
\<close>

definition addRow :: "string list \<Rightarrow> nat \<Rightarrow> cell list \<Rightarrow> string \<Rightarrow> parserState \<Rightarrow> parserState" where
  "addRow ths excelRowNumber rowArray determinedScenarioTitle st =
     (if determinedScenarioTitle = []
      then st\<lparr>printed := printed st @ [SkippedEmptyTitle excelRowNumber]\<rparr>
      else
        let pageCamelCaseName = toCamelCase determinedScenarioTitle;
            key = toShortFeatureName determinedScenarioTitle
        in if pageCamelCaseName = []
           then st\<lparr>printed := printed st
                       @ [SkippedNoPageName excelRowNumber determinedScenarioTitle]\<rparr>
           else
             let m1 = (if map_of (groupedMap st) key = None
                       then groupedMap st
                            @ [(key, \<lparr> page = pageCamelCaseName,
                                       scenario = determinedScenarioTitle,
                                       shortFeatureName = key, tests = [] \<rparr>)]
                       else groupedMap st);
                 n = (case map_of m1 key of None \<Rightarrow> 0 | Some g \<Rightarrow> length (tests g));
                 tc = makeTestCase ths rowArray determinedScenarioTitle n
             in st\<lparr>groupedMap := pushTest key tc m1\<rparr>)"

text \<open>One turn of the loop over the data rows (\<open>rowIndex\<close> counts from 0).\<close>

definition groupRow :: "string list \<Rightarrow> nat \<Rightarrow> parserState \<Rightarrow> cell list \<Rightarrow> parserState" where
  "groupRow ths rowIndex st rowArray =
     (let excelRowNumber = rowIndex + 2;
          raw = cellAt rowArray (indexOfHeader ''Test Scenario'' ths)
      in if cellTrim raw \<noteq> []
         then addRow ths excelRowNumber rowArray (cellTrim raw)
                (st\<lparr>lastValidScenarioTitle := Some (cellTrim raw)\<rparr>)
         else (case lastValidScenarioTitle st of
                 Some t \<Rightarrow> addRow ths excelRowNumber rowArray t st
               | None \<Rightarrow> st\<lparr>printed := printed st @ [SkippedNoScenario excelRowNumber]\<rparr>))"

fun groupRows :: "string list \<Rightarrow> nat \<Rightarrow> parserState \<Rightarrow> cell list list \<Rightarrow> parserState" where
  "groupRows ths rowIndex st [] = st"
| "groupRows ths rowIndex st (rowArray # rest) =
     groupRows ths (rowIndex + 1) (groupRow ths rowIndex st rowArray) rest"

definition initialState :: parserState where
  "initialState = \<lparr> groupedMap = [], lastValidScenarioTitle = None, printed = [] \<rparr>"

text \<open>
  \<open>parseExcelToJSON\<close> from the rows of the first sheet on: the result is the map
  and what was printed, or the error thrown.
\<close>

definition parseExcelToJSON ::
  "cell list list \<Rightarrow> error + ((string \<times> scenarioGroup) list \<times> warning list)" where
  "parseExcelToJSON rows =
     (case rows of
        [] \<Rightarrow> Inr ([], [EmptyFile])
      | headers # dataRows \<Rightarrow>
          if headers = [] then Inl HeaderRowEmpty
          else (case validateExcelSchema headers dataRows of
                  Inl e \<Rightarrow> Inl e
                | Inr _ \<Rightarrow>
                    let st = groupRows (trimHeaders headers) 0 initialState dataRows
                    in Inr (groupedMap st,
                            printed st @ (if groupedMap st = [] then [NothingGrouped] else []))))"

section \<open>Regular expressions of the host language\<close>

text \<open>
  The fragment of JavaScript's regular expressions that the program uses: literals,
  character classes, sequence, alternative, the greedy optional group, the greedy and
  the lazy star, the greedy plus and the greedy bounded repetition of a class, the
  capturing group and the backreference. Capturing groups are never nested in the
  program's expressions, so the captures are numbered in the order they close.
\<close>

datatype rx =
    Lit string
  | Cls "char \<Rightarrow> bool"
  | Seq rx rx
  | Alt rx rx
  | Opt rx
  | Star "char \<Rightarrow> bool"
  | StarLazy "char \<Rightarrow> bool"
  | Plus "char \<Rightarrow> bool"
  | Rep "char \<Rightarrow> bool" nat nat
  | Grp rx
  | Back nat

text \<open>What is left of \<open>s\<close> after 0, 1, 2, ... leading characters of a class.\<close>

fun runs :: "(char \<Rightarrow> bool) \<Rightarrow> string \<Rightarrow> string list" where
  "runs P [] = [[]]"
| "runs P (c # cs) = (c # cs) # (if P c then runs P cs else [])"

text \<open>
  \<open>rxMatches r (caps, s)\<close>: every way for \<open>r\<close> to match a prefix of \<open>s\<close>, as the captures
  so far and the rest of \<open>s\<close>, in the order in which the backtracking matcher tries
  them. The first element is the match the matcher reports.
\<close>

fun rxMatches :: "rx \<Rightarrow> string list \<times> string \<Rightarrow> (string list \<times> string) list" where
  "rxMatches (Lit l) (caps, s) = (if take (length l) s = l then [(caps, drop (length l) s)] else [])"
| "rxMatches (Cls P) (caps, s) = (case s of [] \<Rightarrow> [] | c # cs \<Rightarrow> if P c then [(caps, cs)] else [])"
| "rxMatches (Seq a b) st = concat (map (rxMatches b) (rxMatches a st))"
| "rxMatches (Alt a b) st = rxMatches a st @ rxMatches b st"
| "rxMatches (Opt a) st = rxMatches a st @ [st]"
| "rxMatches (Star P) (caps, s) = map (Pair caps) (rev (runs P s))"
| "rxMatches (StarLazy P) (caps, s) = map (Pair caps) (runs P s)"
| "rxMatches (Plus P) (caps, s) = map (Pair caps) (rev (tl (runs P s)))"
| "rxMatches (Rep P lo hi) (caps, s) = map (Pair caps) (rev (take (hi + 1 - lo) (drop lo (runs P s))))"
| "rxMatches (Grp a) (caps, s) =
     map (\<lambda>(caps', rest). (caps' @ [take (length s - length rest) s], rest)) (rxMatches a (caps, s))"
| "rxMatches (Back n) (caps, s) =
     (let l = (if 0 < n \<and> n \<le> length caps then caps ! (n - 1) else [])
      in if take (length l) s = l then [(caps, drop (length l) s)] else [])"

fun seqs :: "rx list \<Rightarrow> rx" where
  "seqs [] = Lit []"
| "seqs [r] = r"
| "seqs (r # rs) = Seq r (seqs rs)"


record rxMatch =
  before :: string
  matched :: string
  groups :: "string list"
  after :: string

text \<open>\<open>regex.exec(s)\<close> without the global flag: the leftmost start that matches.\<close>

fun execFrom :: "rx \<Rightarrow> string \<Rightarrow> string \<Rightarrow> rxMatch option" where
  "execFrom r pre s =
     (case rxMatches r ([], s) of
        (caps, rest) # _ \<Rightarrow>
          Some \<lparr> before = pre, matched = take (length s - length rest) s, groups = caps,
                 after = rest \<rparr>
      | [] \<Rightarrow> (case s of [] \<Rightarrow> None | c # cs \<Rightarrow> execFrom r (pre @ [c]) cs))"

definition rxExec :: "rx \<Rightarrow> string \<Rightarrow> rxMatch option" where
  "rxExec r s = execFrom r [] s"

definition rxTest :: "rx \<Rightarrow> string \<Rightarrow> bool" where
  "rxTest r s = (rxExec r s \<noteq> None)"

text \<open>
  The replacement text of \<open>String.prototype.replace\<close> when there are no captures:
  \<open>$$\<close> is a dollar sign, \<open>$&\<close> the matched text, \<open>$`\<close> the text before the match,
  \<open>$'\<close> the text after it, and any other dollar sign stands for itself.
\<close>

fun getSubstitution :: "string \<Rightarrow> string \<Rightarrow> string \<Rightarrow> string \<Rightarrow> string" where
  "getSubstitution m pre post [] = []"
| "getSubstitution m pre post [c] = [c]"
| "getSubstitution m pre post (c # d # r) =
     (if c = CHR ''$'' \<and> d = CHR ''$'' then CHR ''$'' # getSubstitution m pre post r
      else if c = CHR ''$'' \<and> d = CHR ''&'' then m @ getSubstitution m pre post r
      else if c = CHR ''$'' \<and> d = CHR 0x60 then pre @ getSubstitution m pre post r
      else if c = CHR ''$'' \<and> d = CHR 0x27 then post @ getSubstitution m pre post r
      else c # getSubstitution m pre post (d # r))"

text \<open>\<open>s.replace(p, r)\<close> for a string pattern \<open>p\<close>: the first occurrence only.\<close>

definition jsReplace :: "string \<Rightarrow> string \<Rightarrow> string \<Rightarrow> string" where
  "jsReplace s p r =
     (case indexOf p s of
        None \<Rightarrow> s
      | Some k \<Rightarrow>
          take k s @ getSubstitution p (take k s) (drop (k + length p) s) r
          @ drop (k + length p) s)"

text \<open>\<open>s.replace(regex, r)\<close> without the global flag, for a text \<open>r\<close> without dollar sign.\<close>

definition rxReplace :: "rx \<Rightarrow> string \<Rightarrow> string \<Rightarrow> string" where
  "rxReplace r s new =
     (case rxExec r s of None \<Rightarrow> s | Some m \<Rightarrow> before m @ new @ after m)"

text \<open>\<open>s.replace(/suffix$/, '')\<close> for a literal suffix.\<close>

definition dropSuffix :: "string \<Rightarrow> string \<Rightarrow> string" where
  "dropSuffix suffix s = (if endsWith s suffix then take (length s - length suffix) s else s)"

subsection \<open>Character classes\<close>

definition quote3 :: "char \<Rightarrow> bool" where
  "quote3 c = (c = CHR 0x27 \<or> c = CHR 0x22 \<or> c = CHR 0x60)"

definition quote2 :: "char \<Rightarrow> bool" where
  "quote2 c = (c = CHR 0x27 \<or> c = CHR 0x22)"

text \<open>The dot: any character but a line terminator.\<close>

definition dot :: "char \<Rightarrow> bool" where
  "dot c = (c \<noteq> CHR 0x0A \<and> c \<noteq> CHR 0x0D)"

definition hostChar :: "char \<Rightarrow> bool" where
  "hostChar c = (isLower c \<or> isUpper c \<or> isDigit c \<or> c = CHR ''.'' \<or> c = CHR ''-'')"

definition alphaChar :: "char \<Rightarrow> bool" where
  "alphaChar c = (isLower c \<or> isUpper c)"

definition pathChar :: "char \<Rightarrow> bool" where
  "pathChar c = (\<not> isWs c \<and> c \<noteq> CHR '','' \<and> c \<noteq> CHR 0x22 \<and> c \<noteq> CHR 0x27)"

subsection \<open>The expressions of the post-processor\<close>

text \<open>\<open>/import\s+\{\s*test\s*\}\s+from\s+['"]\.\.\/testFixtures\/baseFixture\.js['"];?/\<close>\<close>

definition importBaseFixtureRegex :: rx where
  "importBaseFixtureRegex =
     seqs [Lit ''import'', Plus isWs, Lit ''{'', Star isWs, Lit ''test'', Star isWs, Lit ''}'',
           Plus isWs, Lit ''from'', Plus isWs, Cls quote2,
           Lit ''../testFixtures/baseFixture.js'', Cls quote2, Opt (Lit '';'')]"

text \<open>\<open>/(test\.describe\()(['"`])(.*?)\2(\s*,\s*?\(\s*?\)\s*?=>\s*?\{)/\<close>\<close>

definition describeTail :: rx where
  "describeTail =
     seqs [Star isWs, Lit '','', StarLazy isWs, Lit ''('', StarLazy isWs, Lit '')'',
           StarLazy isWs, Lit ''=>'', StarLazy isWs, Lit ''{'']"

definition describeRegex :: rx where
  "describeRegex =
     seqs [Grp (Lit ''test.describe(''), Grp (Cls quote3), Grp (StarLazy dot), Back 2,
           Grp describeTail]"

text \<open>\<open>/(test\(['"`])(.*?)(['"`]\s*,\s*async\s*\(\s*{.*?}\s*\)\s*=>\s*\{)/\<close>\<close>

definition testTail :: rx where
  "testTail =
     seqs [Cls quote3, Star isWs, Lit '','', Star isWs, Lit ''async'', Star isWs,
           Lit ''('', Star isWs, Lit ''{'', StarLazy dot, Lit ''}'', Star isWs,
           Lit '')'', Star isWs, Lit ''=>'', Star isWs, Lit ''{'']"

definition testRegex :: rx where
  "testRegex =
     seqs [Grp (Seq (Lit ''test('') (Cls quote3)), Grp (StarLazy dot), Grp testTail]"

text \<open>
  \<open>/(?:expect\(|page\.waitForURL\(|await\s+(?:page|browser)\.(?:toBe|toHave|isVisible|title)\()/\<close>
\<close>

definition existingAssertionRegex :: rx where
  "existingAssertionRegex =
     Alt (Lit ''expect('')
       (Alt (Lit ''page.waitForURL('')
          (seqs [Lit ''await'', Plus isWs, Alt (Lit ''page'') (Lit ''browser''), Lit ''.'',
                 Alt (Lit ''toBe'') (Alt (Lit ''toHave'') (Alt (Lit ''isVisible'') (Lit ''title''))),
                 Lit ''('']))"

text \<open>
  \<open>/(https?:\/\/(?:www\.)?[a-zA-Z0-9.-]+\.[a-zA-Z]{2,6}(?::\d+)?(?:\/[^\s,"']*)?)/\<close>
\<close>

definition urlRegex :: rx where
  "urlRegex =
     Grp (seqs [Lit ''http'', Opt (Lit ''s''), Lit ''://'', Opt (Lit ''www.''), Plus hostChar,
                Lit ''.'', Rep alphaChar 2 6, Opt (Seq (Lit '':'') (Plus isDigit)),
                Opt (Seq (Lit ''/'') (Star pathChar))])"

section \<open>Code conformance post-processor (server/code-generator.js)\<close>

definition LF :: char where
  "LF = CHR 0x0A"

subsection \<open>Titles\<close>

text \<open>The tags for a priority; the \<open>switch\<close> has no default.\<close>

definition priorityTags :: "string \<Rightarrow> string" where
  "priorityTags p =
     (if p = ''P1'' then ''@smoke @reg ''
      else if p = ''P2'' then ''@sanity @reg ''
      else if p = ''P3'' then ''@reg ''
      else [])"

definition exactTestTitle :: "testCase \<Rightarrow> string" where
  "exactTestTitle currentTestCase =
     (if priority currentTestCase \<noteq> []
      then priorityTags (priority currentTestCase) @ title currentTestCase
      else title currentTestCase)"

definition bannedTitle :: "string \<Rightarrow> bool" where
  "bannedTitle generatedTitle =
     (includesStr generatedTitle ''Test for'' \<or> includesStr generatedTitle ''Case''
      \<or> includesStr generatedTitle ''Funcitonality'' \<or> includesStr generatedTitle ''Scenario'')"

text \<open>The third capture of a match of \<open>describeRegex\<close>, the second of \<open>testRegex\<close>.\<close>

definition describeMatch :: "string \<Rightarrow> string option" where
  "describeMatch line = map_option (\<lambda>m. groups m ! 2) (rxExec describeRegex line)"

definition testMatch :: "string \<Rightarrow> string option" where
  "testMatch line = map_option (\<lambda>m. groups m ! 1) (rxExec testRegex line)"

text \<open>Declaration-level title correction of one line.\<close>

definition correctDescribeTitle :: "scenarioGroup \<Rightarrow> string \<Rightarrow> string" where
  "correctDescribeTitle correspondingScenario line =
     (case describeMatch line of
        None \<Rightarrow> line
      | Some generatedTitle \<Rightarrow>
          let exactDescribeTitle = scenario correspondingScenario
          in if trim generatedTitle \<noteq> trim exactDescribeTitle
             then jsReplace line generatedTitle exactDescribeTitle
             else line)"

text \<open>Case-level title correction of one line whose captured title is \<open>generatedTitle\<close>.\<close>

definition correctTestTitle :: "testCase \<Rightarrow> string \<Rightarrow> string \<Rightarrow> string" where
  "correctTestTitle currentTestCase generatedTitle line =
     (if trim generatedTitle \<noteq> trim (exactTestTitle currentTestCase)
         \<or> bannedTitle generatedTitle
      then jsReplace line generatedTitle (exactTestTitle currentTestCase)
      else line)"

subsection \<open>Assertion inference\<close>

definition nlpAssertion :: "analysis \<Rightarrow> string \<Rightarrow> string" where
  "nlpAssertion nlp expectedResult =
     (if action nlp = ''navigate'' \<and> url nlp \<noteq> []
      then ''await page.waitForURL('' @ [CHR 0x27] @ url nlp @ [CHR 0x27]
           @ ''); // NLP-inferred: Page URL verification''
      else if action nlp = ''verify'' \<and> validationType nlp = ''text'' \<and> expectedValue nlp \<noteq> []
      then ''// Assertion: Verify text content '' @ [CHR 0x27] @ expectedValue nlp @ [CHR 0x27, LF]
           @ ''        // You may need to refine the locator based on context.'' @ [LF]
           @ ''        await expect(page.locator('' @ [CHR 0x27] @ ''text='' @ expectedValue nlp
           @ [CHR 0x27] @ '')).toContainText('' @ [CHR 0x27] @ expectedValue nlp @ [CHR 0x27]
           @ '');''
      else if action nlp = ''verify'' \<and> validationType nlp = ''visibility'' \<and> target nlp \<noteq> []
      then ''// Assertion: Verify element visibility for '' @ [CHR 0x27] @ target nlp
           @ [CHR 0x27, LF]
           @ ''        // You may need to refine the locator based on context.'' @ [LF]
           @ ''        await expect(page.locator('' @ [CHR 0x27] @ ''text='' @ target nlp
           @ [CHR 0x27] @ '')).toBeVisible();''
      else if action nlp = ''verify'' \<and> target nlp \<noteq> [] \<and> expectedValue nlp \<noteq> []
      then ''// Assertion: Verify ${nlpAnalysis.target} is ${nlpAnalysis.expectedValue}. Please add specific assertion.''
      else ''// Verify: '' @ expectedResult)"

definition keywordAssertion :: "string \<Rightarrow> string" where
  "keywordAssertion expectedResult =
     (let lowerExpected = toLowerCase expectedResult in
      if includesStr lowerExpected ''url''
      then (case rxExec urlRegex lowerExpected of
              Some urlMatch \<Rightarrow>
                ''await page.waitForURL('' @ [CHR 0x27] @ matched urlMatch @ [CHR 0x27]
                @ ''); // Keyword inferred: URL verification''
            | None \<Rightarrow> [])
      else if includesStr lowerExpected ''visible'' \<or> includesStr lowerExpected ''displayed''
      then ''// Verify element is visible: '' @ expectedResult
      else if includesStr lowerExpected ''text'' \<or> includesStr lowerExpected ''message''
              \<or> includesStr lowerExpected ''value''
      then ''// Verify text content: '' @ expectedResult
      else ''// Verify: '' @ expectedResult)"

text \<open>\<open>lines.slice(i + 1, i + 10).join('\n')\<close> tested for an assertion the producer wrote.\<close>

definition hasExistingAssertion :: "string list \<Rightarrow> nat \<Rightarrow> bool" where
  "hasExistingAssertion lines i =
     rxTest existingAssertionRegex (joinWith LF (take 9 (drop (i + 1) lines)))"

text \<open>
  \<open>assertionCode\<close> for a test case whose expected result is not blank; the empty
  string when nothing is to be injected.
\<close>

definition inferAssertion :: "testCase \<Rightarrow> string list \<Rightarrow> nat \<Rightarrow> string" where
  "inferAssertion currentTestCase lines i =
     (if \<not> hasExistingAssertion lines i
      then (case expectedAnalysis currentTestCase of
              Some nlp \<Rightarrow> nlpAssertion nlp (expected currentTestCase)
            | None \<Rightarrow> keywordAssertion (expected currentTestCase))
      else [])"

subsection \<open>Injection point\<close>

text \<open>
  The \<open>while\<close> loop that looks for the closing brace: \<open>j\<close> and \<open>braceCount\<close> are
  its variables, the result is the final \<open>j\<close> when \<open>foundClosingBrace\<close> is set and
  \<open>None\<close> when the lines run out.
\<close>

function scanBraces :: "string list \<Rightarrow> nat \<Rightarrow> int \<Rightarrow> nat option" where
  "scanBraces lines j braceCount =
     (if j < length lines
      then (let currentLine = lines ! j;
                b1 = (if includesStr currentLine ''{'' then braceCount + 1 else braceCount);
                b2 = (if includesStr currentLine ''}'' then b1 - 1 else b1)
            in if b2 = 0 then Some (j + 1) else scanBraces lines (j + 1) b2)
      else None)"
  by pat_completeness auto
termination
  by (relation "measure (\<lambda>(lines, j, braceCount). length lines - j)") auto

declare scanBraces.simps [simp del]

text \<open>\<open>lines.splice(k, 0, x)\<close>\<close>

definition splice :: "nat \<Rightarrow> string \<Rightarrow> string list \<Rightarrow> string list" where
  "splice k x lines = take k lines @ [x] @ drop k lines"

subsection \<open>The loop over the lines of a test file\<close>

datatype notice =
    NoClosingBrace string nat
  | NoScenarioForFile string

text \<open>
  The injection of \<open>assertionCode\<close> for the declaration at index \<open>i\<close>: the new
  value of \<open>i\<close>, the new \<open>lines\<close> and the notices. Nothing happens for the empty
  string.
\<close>

definition injectAssertion ::
  "string \<Rightarrow> string \<Rightarrow> nat \<Rightarrow> string list \<Rightarrow> notice list
     \<Rightarrow> nat \<times> string list \<times> notice list" where
  "injectAssertion filePath assertionCode i lines notices =
     (if assertionCode \<noteq> []
      then (case scanBraces lines (i + 1) 1 of
              Some j \<Rightarrow> (j - 1, splice (j - 1) (''      '' @ assertionCode) lines, notices)
            | None \<Rightarrow> (i, lines, notices @ [NoClosingBrace filePath (i + 1)]))
      else (i, lines, notices))"

record loopState =
  lines :: "string list"
  newLines :: "string list"
  testCaseCounter :: nat
  notices :: "notice list"

text \<open>
  One turn of the \<open>for\<close> loop at index \<open>i\<close>: the new value of \<open>i\<close> before the
  increment of the loop, and the new state.
\<close>

definition processLine ::
  "string \<Rightarrow> scenarioGroup \<Rightarrow> nat \<Rightarrow> loopState \<Rightarrow> nat \<times> loopState" where
  "processLine filePath correspondingScenario i st =
     (let line0 = lines st ! i;
          line1 = correctDescribeTitle correspondingScenario line0
      in case testMatch line1 of
           None \<Rightarrow> (i, st\<lparr>newLines := newLines st @ [line1]\<rparr>)
         | Some generatedTitle \<Rightarrow>
             if testCaseCounter st < length (tests correspondingScenario)
             then
               let currentTestCase = tests correspondingScenario ! testCaseCounter st;
                   line2 = correctTestTitle currentTestCase generatedTitle line1;
                   expectedResult = expected currentTestCase;
                   assertionCode =
                     (if trim expectedResult \<noteq> []
                      then inferAssertion currentTestCase (lines st) i else []);
                   (i', lines', notices') =
                     injectAssertion filePath assertionCode i (lines st) (notices st)
               in (i', st\<lparr>lines := lines', newLines := newLines st @ [line2],
                          testCaseCounter := testCaseCounter st + 1, notices := notices'\<rparr>)
             else (i, st\<lparr>newLines := newLines st @ [line1]\<rparr>))"

function processLoop :: "string \<Rightarrow> scenarioGroup \<Rightarrow> nat \<Rightarrow> loopState \<Rightarrow> loopState" where
  "processLoop filePath correspondingScenario i st =
     (if i < length (lines st)
      then (case processLine filePath correspondingScenario i st of
              (i', st') \<Rightarrow> processLoop filePath correspondingScenario (i' + 1) st')
      else st)"
  by pat_completeness auto
termination
proof (relation "measure (\<lambda>(filePath, sc, i, st). length (lines st) - i)", goal_cases)
  case 1
  show ?case by (rule wf_measure)
next
  case (2 filePath sc i st x1 x2)
  have bounds: "scanBraces ls j b = Some j' \<Longrightarrow> j < j' \<and> j' \<le> length ls" for ls j b j'
  proof (induction ls j b rule: scanBraces.induct)
    case (1 ls j b)
    define b2 where "b2 = (if includesStr (ls ! j) ''}''
                 then (if includesStr (ls ! j) ''{'' then b + 1 else b) - 1
                 else (if includesStr (ls ! j) ''{'' then b + 1 else b))"
    from "1.prems" have lt: "j < length ls"
      by (subst (asm) scanBraces.simps) (simp split: if_splits)
    have unf: "scanBraces ls j b = (if b2 = 0 then Some (j + 1) else scanBraces ls (j + 1) b2)"
      by (subst scanBraces.simps) (simp only: lt if_True Let_def b2_def)
    from "1.prems" have r: "(if b2 = 0 then Some (j + 1) else scanBraces ls (j + 1) b2) = Some j'"
      by (simp only: unf)
    show ?case
    proof (cases "b2 = 0")
      case True
      with r lt show ?thesis by simp
    next
      case False
      with r have "scanBraces ls (j + 1) b2 = Some j'" by simp
      from "1.IH"[OF lt refl refl refl False[unfolded b2_def] this[unfolded b2_def]]
      show ?thesis by simp
    qed
  qed
  have inj: "injectAssertion fp a i ls ns = (i', ls', ns') \<Longrightarrow> i < length ls \<Longrightarrow>
               length ls' - (i' + 1) < length ls - i" for fp a i ls ns i' ls' ns'
  proof -
    assume e: "injectAssertion fp a i ls ns = (i', ls', ns')" and lt: "i < length ls"
    show ?thesis
    proof (cases "a \<noteq> [] \<and> scanBraces ls (i + 1) 1 \<noteq> None")
      case True
      then obtain j where j: "scanBraces ls (i + 1) 1 = Some j" by blast
      from bounds[OF j] have jb: "i + 1 < j" "j \<le> length ls" by simp_all
      from e True j have "i' = j - 1" "ls' = splice (j - 1) (''      '' @ a) ls"
        by (auto simp add: injectAssertion_def)
      with jb show ?thesis by (simp add: splice_def)
    next
      case False
      with e have "i' = i" "ls' = ls"
        by (auto simp add: injectAssertion_def split: option.splits if_splits)
      with lt show ?thesis by simp
    qed
  qed
  from 2(2) have eq: "processLine filePath sc i st = (x1, x2)" by (rule sym)
  have "length (lines x2) - (x1 + 1) < length (lines st) - i"
  proof (cases "testMatch (correctDescribeTitle sc (lines st ! i))")
    case None
    with eq 2(1) show ?thesis by (auto simp add: processLine_def Let_def)
  next
    case (Some g)
    show ?thesis
    proof (cases "testCaseCounter st < length (tests sc)")
      case False
      with Some eq 2(1) show ?thesis by (auto simp add: processLine_def Let_def)
    next
      case True
      obtain i' ls' ns' where r: "injectAssertion filePath
          (if trim (expected (tests sc ! testCaseCounter st)) \<noteq> []
           then inferAssertion (tests sc ! testCaseCounter st) (lines st) i else [])
          i (lines st) (notices st) = (i', ls', ns')"
        by (cases "injectAssertion filePath
          (if trim (expected (tests sc ! testCaseCounter st)) \<noteq> []
           then inferAssertion (tests sc ! testCaseCounter st) (lines st) i else [])
          i (lines st) (notices st)") auto
      from eq Some True r have "x1 = i'" "lines x2 = ls'"
        by (auto simp add: processLine_def Let_def)
      with inj[OF r 2(1)] show ?thesis by simp
    qed
  qed
  then show ?case by (simp only: in_measure prod.case)
qed

declare processLoop.simps [simp del]

subsection \<open>A test file\<close>

definition isTestSpec :: "string \<Rightarrow> bool" where
  "isTestSpec filePath =
     (startsWith filePath ''tests/''
      \<and> (endsWith filePath ''.spec.js'' \<or> endsWith filePath ''.test.js''
           \<or> endsWith filePath ''.cy.js''))"

text \<open>The import of the fixture as a default import, on the first line only.\<close>

definition fixImport :: "string list \<Rightarrow> string list" where
  "fixImport lns =
     (case lns of
        [] \<Rightarrow> []
      | first # rest \<Rightarrow>
          if rxTest importBaseFixtureRegex first
          then rxReplace importBaseFixtureRegex first
                 ''import test from '../testFixtures/baseFixture.js';'' # rest
          else lns)"

text \<open>\<open>generatedFileNameWithoutExt\<close>\<close>

definition fileNameWithoutExt :: "string \<Rightarrow> string" where
  "fileNameWithoutExt filePath =
     dropSuffix ''.cy.js'' (dropSuffix ''.test.js'' (dropSuffix ''.spec.js''
       (last (splitOn (CHR ''/'') filePath))))"

definition processTestFile ::
  "scenarioGroup list \<Rightarrow> string \<Rightarrow> string \<Rightarrow> string \<times> notice list" where
  "processTestFile testDataArray filePath fileContent =
     (let lines0 = fixImport (splitOn LF fileContent) in
      case find (\<lambda>s. shortFeatureName s = fileNameWithoutExt filePath) testDataArray of
        Some correspondingScenario \<Rightarrow>
          let st = processLoop filePath correspondingScenario 0
                     \<lparr> lines = lines0, newLines = [], testCaseCounter = 0, notices = [] \<rparr>
          in (joinWith LF (newLines st), notices st)
      | None \<Rightarrow> (joinWith LF lines0, [NoScenarioForFile filePath]))"

subsection \<open>The fixture file\<close>

definition fixturePath :: string where
  "fixturePath = ''testFixtures/baseFixture.js''"

text \<open>
  The keys of \<open>uniquePageObjectInfo\<close>, in the order of their first insertion: the
  Pascal-case names of the scenario titles, the empty name left out.
\<close>

fun collectPageObjectNames :: "string list \<Rightarrow> scenarioGroup list \<Rightarrow> string list" where
  "collectPageObjectNames names [] = names"
| "collectPageObjectNames names (scenarioGroup # rest) =
     (let pascalCaseName = toPascalCase (scenario scenarioGroup) in
      collectPageObjectNames
        (if pascalCaseName \<noteq> [] \<and> pascalCaseName \<notin> set names
         then names @ [pascalCaseName] else names) rest)"

definition pageObjectNames :: "scenarioGroup list \<Rightarrow> string list" where
  "pageObjectNames testDataArray = collectPageObjectNames [] testDataArray"

definition importStatement :: "string \<Rightarrow> string" where
  "importStatement name =
     ''import { '' @ name @ ''Page } from '../pages/'' @ name @ ''Page.js';''"

definition fixtureDefinition :: "string \<Rightarrow> string" where
  "fixtureDefinition name =
     ''    '' @ toCamelCase name @ ''Page: async ({ page }, use) => { await use(new '' @ name
     @ ''Page(page)); },''"

definition baseImport :: string where
  "baseImport = ''import { test as baseTest } from '@playwright/test';''"

definition rebuildFixture :: "string list \<Rightarrow> string" where
  "rebuildFixture names =
     (if names \<noteq> []
      then
        let importStatements = joinWith LF (map importStatement names);
            fixtureDefinitions = joinWith LF (map fixtureDefinition names)
        in baseImport @ [LF]
           @ (if importStatements \<noteq> [] then importStatements @ [LF] else [])
           @ [LF] @ ''const test = baseTest.extend({'' @ [LF]
           @ (if fixtureDefinitions \<noteq> [] then fixtureDefinitions @ [LF] else [])
           @ ''});'' @ [LF, LF] @ ''export default test;'' @ [LF]
      else baseImport @ [LF, LF] @ ''const test = baseTest.extend({});'' @ [LF, LF]
           @ ''export default test;'' @ [LF])"

subsection \<open>The generated file set\<close>

text \<open>
  The parsed answer of the producer: an object from relative path to content, as the
  list of its entries in enumeration order.
\<close>

type_synonym fileSet = "(string \<times> string) list"

definition postProcess :: "scenarioGroup list \<Rightarrow> fileSet \<Rightarrow> fileSet" where
  "postProcess testDataArray aiGeneratedStructure =
     (let structure1 =
            map (\<lambda>(filePath, fileContent).
                   if isTestSpec filePath
                   then (filePath, fst (processTestFile testDataArray filePath fileContent))
                   else (filePath, fileContent)) aiGeneratedStructure
      in case map_of structure1 fixturePath of
           None \<Rightarrow> structure1
         | Some content \<Rightarrow>
             if content \<noteq> []
             then map (\<lambda>(filePath, fileContent).
                         if filePath = fixturePath
                         then (filePath, rebuildFixture (pageObjectNames testDataArray))
                         else (filePath, fileContent)) structure1
             else structure1)"

section \<open>The injection point as the specification words it\<close>

text \<open>
  The injection point in the words of the specification: the depth starts at 1 on the
  declaration line, every opening brace of a scanned line adds one and every closing
  brace takes one away, and the target is the first line after which the depth is 0.
  \<open>j\<close> is the index of the first line of \<open>rest\<close>.
\<close>

definition countChar :: "char \<Rightarrow> string \<Rightarrow> nat" where
  "countChar c s = length (filter (\<lambda>x. x = c) s)"

fun spec_depthScan :: "int \<Rightarrow> nat \<Rightarrow> string list \<Rightarrow> nat option" where
  "spec_depthScan depth j [] = None"
| "spec_depthScan depth j (currentLine # rest) =
     (let depth' = depth + int (countChar (CHR ''{'') currentLine)
                     - int (countChar (CHR ''}'') currentLine)
      in if depth' = 0 then Some j else spec_depthScan depth' (j + 1) rest)"

definition spec_insertionPoint :: "string list \<Rightarrow> nat \<Rightarrow> nat option" where
  "spec_insertionPoint lns i = spec_depthScan 1 (i + 1) (drop (i + 1) lns)"

section \<open>Vocabulary of the statements and example inputs\<close>

text \<open>
  A row is appended under a title \<open>t\<close> when, from the map \<open>m\<close> before the row to
  the map \<open>m'\<close> after it, the group keyed by the short feature name of \<open>t\<close> gains
  exactly the test case built from the row, at its end, a missing group being created
  with \<open>t\<close> as its scenario, and every other group stays as it was, in place.
\<close>

definition appendedUnder ::
  "string \<Rightarrow> string list \<Rightarrow> cell list \<Rightarrow> (string \<times> scenarioGroup) list
     \<Rightarrow> (string \<times> scenarioGroup) list \<Rightarrow> bool" where
  "appendedUnder t ths rowArray m m' =
     (let key = toShortFeatureName t;
          old = (case map_of m key of None \<Rightarrow> [] | Some g \<Rightarrow> tests g)
      in map_option tests (map_of m' key) = Some (old @ [makeTestCase ths rowArray t (length old)])
         \<and> map_option scenario (map_of m' key)
             = Some (case map_of m key of None \<Rightarrow> t | Some g \<Rightarrow> scenario g)
         \<and> filter (\<lambda>(k, g). k \<noteq> key) m' = filter (\<lambda>(k, g). k \<noteq> key) m)"










definition exampleHeaders :: "cell list" where
  "exampleHeaders =
     [Str ''Test Scenario'', Str ''Test Case ID'', Str ''Test Case Description'',
      Str ''Detail Steps'', Str ''Test Data'', Str ''Expected Result'', Str ''Testcase Priority'']"

definition rowLogin :: "cell list" where
  "rowLogin = [Str ''Login'', Str ''TC1'', Str ''Valid login'', Str ''Open the page'', Undefined,
               Str ''Dashboard is shown'', Str ''P1'']"

definition rowBlank :: "cell list" where
  "rowBlank = [Undefined, Str ''TC2'', Str ''Wrong password'', Str ''Open the page'', Undefined,
               Str ''An error message is shown'', Str ''P2'']"

definition rowBang :: "cell list" where
  "rowBang = [Str ''!!!'', Str ''TC1'', Str ''Valid login'', Str ''Open the page'', Undefined,
              Str ''Dashboard is shown'', Str ''P1'']"

definition tcValid :: testCase where
  "tcValid = \<lparr> tcId = ''TC1'', title = ''Valid login'', description = ''Valid login'',
               steps = [''Open the page''], tcData = [], expected = ''Dashboard shown'',
               priority = ''P1'', expectedAnalysis = None \<rparr>"

definition loginGroup :: scenarioGroup where
  "loginGroup = \<lparr> page = ''login'', scenario = ''Login'', shortFeatureName = ''login'',
                  tests = [tcValid] \<rparr>"

definition tcRedirect :: testCase where
  "tcRedirect = \<lparr> tcId = ''TC7'', title = ''Redirect after login'',
                  description = ''Redirect after login'', steps = [''Log in''], tcData = [],
                  expected = ''User is redirected to https://app.example.com/dashboard'',
                  priority = ''P2'', expectedAnalysis = None \<rparr>"

definition simpleBody :: "string list" where
  "simpleBody =
     [''  test('Redirect after login', async ({ page }) => {'',
      ''    await page.click('#login');'',
      ''  });'']"

definition tcDashboard :: testCase where
  "tcDashboard = \<lparr> tcId = ''TC3'', title = ''Open dashboard'', description = ''Open dashboard'',
                   steps = [''Log in''], tcData = [], expected = ''Dashboard shown'',
                   priority = [], expectedAnalysis = None \<rparr>"

definition dashboardGroup :: scenarioGroup where
  "dashboardGroup = \<lparr> page = ''dashboard'', scenario = ''Dashboard'',
                      shortFeatureName = ''dashboard'', tests = [tcDashboard] \<rparr>"

definition dashboardLines :: "string list" where
  "dashboardLines =
     [''  test('Open dashboard', async ({ page }) => {'',
      ''    await page.click('#login');'',
      ''  });'']"

definition startState :: "string list \<Rightarrow> loopState" where
  "startState lns = \<lparr> lines = lns, newLines = [], testCaseCounter = 0, notices = [] \<rparr>"



definition nestedFile :: "string list" where
  "nestedFile =
     [''import test from '../testFixtures/baseFixture.js';'',
      ''test.describe('Login', () => {'',
      ''  test('@smoke @reg Valid login', async ({ page }) => {'',
      ''    if (a) { if (b) {'',
      ''      await page.click('#go');'',
      ''    }'',
      ''    }'',
      ''  });'',
      ''});'']"



















section \<open>Facts about the string helpers\<close>









section \<open>Facts about the validator and the parser\<close>

lemma checkMandatory_Some:
  "checkMandatory ths ms = Some e \<Longrightarrow> \<exists>m \<in> set ms. e = MissingColumn m \<and> m \<notin> set ths"
  by (induction ms) (auto split: if_splits)

lemma checkMandatory_missing:
  "m \<in> set ms \<Longrightarrow> m \<notin> set ths \<Longrightarrow> checkMandatory ths ms \<noteq> None"
  by (induction ms) auto

lemma groupRows_snoc:
  "groupRows ths i st (rows @ [r]) = groupRow ths (i + length rows) (groupRows ths i st rows) r"
  by (induction rows arbitrary: i st) auto

lemma addRow_last [simp]:
  "lastValidScenarioTitle (addRow ths n r t st) = lastValidScenarioTitle st"
  by (simp add: addRow_def Let_def)

lemma map_of_pushTest:
  "map_of (pushTest key tc m) k =
     (if k = key then map_option (\<lambda>g. g\<lparr>tests := tests g @ [tc]\<rparr>) (map_of m k) else map_of m k)"
  by (induction m) (auto simp: pushTest_def)

lemma filter_pushTest:
  "filter (\<lambda>(k, g). k \<noteq> key) (pushTest key tc m) = filter (\<lambda>(k, g). k \<noteq> key) m"
  by (induction m) (auto simp: pushTest_def)

lemma addRow_appended:
  assumes "t \<noteq> []" "toCamelCase t \<noteq> []"
  shows "appendedUnder t ths r (groupedMap st) (groupedMap (addRow ths n r t st))"
  using assms
  by (cases "map_of (groupedMap st) (toShortFeatureName t)")
     (auto simp: appendedUnder_def addRow_def Let_def map_of_pushTest filter_pushTest map_add_def)

lemma addRow_dropped:
  assumes "t \<noteq> []" "toCamelCase t = []"
  shows "addRow ths n r t st = st\<lparr>printed := printed st @ [SkippedNoPageName n t]\<rparr>"
  using assms by (simp add: addRow_def Let_def)

lemma carried_title:
  "lastValidScenarioTitle (groupRows ths i st rows) =
     (case filter (\<lambda>c. cellTrim c \<noteq> [])
             (map (\<lambda>r. cellAt r (indexOfHeader ''Test Scenario'' ths)) rows) of
        [] \<Rightarrow> lastValidScenarioTitle st
      | cs \<Rightarrow> Some (cellTrim (last cs)))"
proof (induction rows arbitrary: i st)
  case Nil
  show ?case by simp
next
  case (Cons r rows)
  show ?case
    by (simp add: Cons.IH groupRow_def Let_def split: option.splits list.splits)
qed

lemma carried_nonempty:
  "lastValidScenarioTitle st \<noteq> Some [] \<Longrightarrow>
   lastValidScenarioTitle (groupRows ths i st rows) \<noteq> Some []"
  by (induction rows arbitrary: i st) (auto simp: groupRow_def Let_def split: option.splits)






section \<open>Facts about the post-processor\<close>

lemma list_all2_map_same:
  "(\<And>x. x \<in> set xs \<Longrightarrow> P x (f x)) \<Longrightarrow> list_all2 P xs (map f xs)"
  by (induction xs) auto

lemma keywordAssertion_redirect: "keywordAssertion ''User is redirected to https://app.example.com/dashboard''
             = ''// Verify: User is redirected to https://app.example.com/dashboard''"
  by code_simp

lemma keywordAssertion_url: "keywordAssertion ''The URL is https://app.example.com/dashboard''
             = ''await page.waitForURL('https://app.example.com/dashboard'); // Keyword inferred: URL verification''"
  by code_simp















section \<open>Facts about the matcher and the title correction\<close>






































section \<open>Results\<close>

subsection \<open>C1\<close>

text \<open>
  C1, as amended. The mandatory names of the validator are six: Test Scenario, Test
  Case Description, Detail Steps, Test Data, Expected Result, Testcase Priority.
  Whenever one of them is absent from the trimmed header row, in whatever order the
  header row lists the others, validation throws the schema error that names an
  absent column, and \<open>parseExcelToJSON\<close> ends with an error before it groups any row.
\<close>

theorem schema_missing_column:
  assumes "m \<in> set [''Test Scenario'', ''Test Case Description'', ''Detail Steps'', ''Test Data'',
                     ''Expected Result'', ''Testcase Priority'']"
      and "m \<notin> set (trimHeaders headers)"
  shows "\<exists>m'. m' \<notin> set (trimHeaders headers)
            \<and> validateExcelSchema headers dataRows = Inl (MissingColumn m')
            \<and> (\<exists>e. parseExcelToJSON (headers # dataRows) = Inl e)"
proof -
  from assms have "checkMandatory (trimHeaders headers) MANDATORY_HEADERS \<noteq> None"
    by (intro checkMandatory_missing[of m]) (simp_all add: MANDATORY_HEADERS_def)
  then obtain e where e: "checkMandatory (trimHeaders headers) MANDATORY_HEADERS = Some e"
    by blast
  from checkMandatory_Some[OF e] obtain m' where
    m': "e = MissingColumn m'" "m' \<notin> set (trimHeaders headers)" by blast
  have v: "validateExcelSchema headers dataRows = Inl (MissingColumn m')"
    using e m' by (simp add: validateExcelSchema_def Let_def)
  have "\<exists>e. parseExcelToJSON (headers # dataRows) = Inl e"
    using v by (simp add: parseExcelToJSON_def)
  with v m' show ?thesis by blast
qed

theorem schema_missing_column_witness:
  "''Test Data'' \<in> set [''Test Scenario'', ''Test Case Description'', ''Detail Steps'', ''Test Data'',
                     ''Expected Result'', ''Testcase Priority'']
   \<and> ''Test Data'' \<notin> set (trimHeaders [Str ''Test Scenario'', Str '' Detail Steps ''])
   \<and> (\<exists>m'. m' \<notin> set (trimHeaders [Str ''Test Scenario'', Str '' Detail Steps ''])
            \<and> validateExcelSchema [Str ''Test Scenario'', Str '' Detail Steps ''] [] = Inl (MissingColumn m')
            \<and> (\<exists>e. parseExcelToJSON ([Str ''Test Scenario'', Str '' Detail Steps ''] # []) = Inl e))"
proof -
  have h1: "''Test Data'' \<in> set [''Test Scenario'', ''Test Case Description'', ''Detail Steps'', ''Test Data'',
                     ''Expected Result'', ''Testcase Priority'']" by simp
  have h2: "''Test Data'' \<notin> set (trimHeaders [Str ''Test Scenario'', Str '' Detail Steps ''])"
    by code_simp
  from schema_missing_column[OF h1 h2, of "[]"] h1 h2 show ?thesis by blast
qed

text \<open>
  C1, as stated, fails: Test Case ID is not among the names the validator asks for. A
  header row with the six names above and no Test Case ID passes.
\<close>

theorem schema_test_case_id_counterexample:
  "''Test Case ID'' \<notin> set (trimHeaders
       [Str ''Test Scenario'', Str ''Test Case Description'', Str ''Detail Steps'',
        Str ''Test Data'', Str ''Expected Result'', Str ''Testcase Priority''])
   \<and> validateExcelSchema
       [Str ''Test Scenario'', Str ''Test Case Description'', Str ''Detail Steps'',
        Str ''Test Data'', Str ''Expected Result'', Str ''Testcase Priority'']
       [[Str ''Login'', Str ''Valid login'', Str ''Open the page'', Undefined, Str ''Dashboard'',
         Str ''P1'']] = Inr True"
  by code_simp

subsection \<open>C2\<close>




subsection \<open>C3\<close>

text \<open>
  C3. On a test file whose body holds two opening braces on one line, the loop of the
  code counts one and stops at the inner closing line (index 6), where the depth
  counted brace by brace reaches 0 only at the closing line of the test block (index
  7). Moreover the loop over the lines resumes after the inserted line without copying
  the lines it scanned, so the body of the test and the inserted line are missing from
  the rewritten file.
\<close>

theorem brace_depth_failing_input:
  "injectAssertion ''tests/login.spec.js'' ''// Verify: Dashboard shown'' 2 nestedFile []
     = (6, take 6 nestedFile @ [''      // Verify: Dashboard shown''] @ drop 6 nestedFile, [])
   \<and> spec_insertionPoint nestedFile 2 = Some 7
   \<and> splitOn LF (fst (processTestFile [loginGroup] ''tests/login.spec.js''
                         (joinWith LF nestedFile)))
       = [''import test from '../testFixtures/baseFixture.js';'',
          ''test.describe('Login', () => {'',
          ''  test('@smoke @reg Valid login', async ({ page }) => {'',
          ''    }'',
          ''  });'',
          ''});'']"
  by code_simp

subsection \<open>C4\<close>

text \<open>
  C4, as amended. For the expected text "User is redirected to
  https://app.example.com/dashboard", with no analysis attached and no assertion in
  the window, the keyword fallback finds none of its keywords (the text does not
  contain "url") and the synthesized line is the plain comment that echoes the text.
  The wait-for-URL call that targets https://app.example.com/dashboard is synthesized
  when the expected text also holds the keyword, as in "The URL is
  https://app.example.com/dashboard".
\<close>

theorem keyword_fallback_redirect:
  assumes "expectedAnalysis tc = None" and "\<not> hasExistingAssertion lns i"
  shows "(expected tc = ''User is redirected to https://app.example.com/dashboard'' \<longrightarrow>
            inferAssertion tc lns i
              = ''// Verify: User is redirected to https://app.example.com/dashboard'')
       \<and> (expected tc = ''The URL is https://app.example.com/dashboard'' \<longrightarrow>
            inferAssertion tc lns i
              = ''await page.waitForURL('https://app.example.com/dashboard'); // Keyword inferred: URL verification'')"
  using assms by (simp add: inferAssertion_def keywordAssertion_redirect keywordAssertion_url)

theorem keyword_fallback_redirect_witness:
  "expectedAnalysis tcRedirect = None \<and> \<not> hasExistingAssertion simpleBody 0
   \<and> expected tcRedirect = ''User is redirected to https://app.example.com/dashboard''
   \<and> inferAssertion tcRedirect simpleBody 0
       = ''// Verify: User is redirected to https://app.example.com/dashboard''"
proof -
  have h1: "expectedAnalysis tcRedirect = None" by (simp add: tcRedirect_def)
  have h2: "\<not> hasExistingAssertion simpleBody 0" by code_simp
  have h3: "expected tcRedirect = ''User is redirected to https://app.example.com/dashboard''"
    by (simp add: tcRedirect_def)
  from keyword_fallback_redirect [OF h1 h2] h1 h2 h3 show ?thesis by simp
qed

text \<open>
  C4, as stated, fails: for that expected text the synthesized line is no wait-for-URL
  call.
\<close>

theorem keyword_fallback_redirect_counterexample:
  "expectedAnalysis tcRedirect = None \<and> \<not> hasExistingAssertion simpleBody 0
   \<and> \<not> includesStr (inferAssertion tcRedirect simpleBody 0) ''waitForURL''"
  by code_simp

subsection \<open>C5\<close>

text \<open>
  C5. A test file with one matched case declaration, whose test case expects
  "Dashboard shown", with no assertion in the window, no analysis and no keyword in
  the expected text. One line is synthesized, the comment that echoes the expected
  text, and it is spliced into the line array just before the closing line. But the
  loop then resumes after the spliced element and copies none of the lines it
  scanned, so the returned file holds neither the synthesized line nor the body of
  the test: of the three lines of the file, the declaration and the closing line are
  left.
\<close>

theorem assertion_injection_failing_input:
  "testMatch (correctDescribeTitle dashboardGroup (dashboardLines ! 0)) = Some ''Open dashboard''
   \<and> trim (expected tcDashboard) \<noteq> []
   \<and> \<not> hasExistingAssertion dashboardLines 0
   \<and> inferAssertion tcDashboard dashboardLines 0 = ''// Verify: Dashboard shown''
   \<and> lines (snd (processLine ''tests/dashboard.spec.js'' dashboardGroup 0
                    (startState dashboardLines)))
       = [''  test('Open dashboard', async ({ page }) => {'',
          ''    await page.click('#login');'',
          ''      // Verify: Dashboard shown'',
          ''  });'']
   \<and> splitOn LF (fst (processTestFile [dashboardGroup] ''tests/dashboard.spec.js''
                         (joinWith LF dashboardLines)))
       = [''  test('Open dashboard', async ({ page }) => {'',
          ''  });'']"
  by code_simp

subsection \<open>C6\<close>

text \<open>
  C6. The fixture entry is rebuilt only when its content is truthy. A producer that
  answers with the fixture path and an empty content gets the empty content back,
  although one page object (\<open>Login\<close>) is known: no import line, no factory entry.
  With any other content under the same path the fixture is rebuilt from the names.
\<close>

theorem fixture_empty_entry_kept:
  "pageObjectNames [loginGroup] = [''Login'']
   \<and> postProcess [loginGroup] [(fixturePath, [])] = [(fixturePath, [])]
   \<and> postProcess [loginGroup] [(fixturePath, ''// nothing yet'')]
       = [(fixturePath, rebuildFixture [''Login''])]"
  by code_simp

subsection \<open>C7\<close>




subsection \<open>C8\<close>

text \<open>
  C8. The post-processor keeps every entry of the file set at its place under its
  path, and the content of an entry can differ from the input only if its path starts
  with \<open>tests/\<close> or is the fixture path.
\<close>

theorem postProcess_frame:
  "list_all2 (\<lambda>(filePath, fileContent) (filePath', fileContent').
                filePath' = filePath
                \<and> (\<not> startsWith filePath ''tests/'' \<and> filePath \<noteq> fixturePath
                     \<longrightarrow> fileContent' = fileContent))
     files (postProcess testDataArray files)"
proof -
  let ?P = "\<lambda>(filePath, fileContent) (filePath', fileContent').
                filePath' = filePath
                \<and> (\<not> startsWith filePath ''tests/'' \<and> filePath \<noteq> fixturePath
                     \<longrightarrow> fileContent' = fileContent)"
  let ?f = "\<lambda>(filePath, fileContent).
                   if isTestSpec filePath
                   then (filePath, fst (processTestFile testDataArray filePath fileContent))
                   else (filePath, fileContent)"
  let ?g = "\<lambda>(filePath, fileContent).
                         if filePath = fixturePath
                         then (filePath, rebuildFixture (pageObjectNames testDataArray))
                         else (filePath, fileContent)"
  have f: "?P x (?f x)" for x
    by (cases x) (simp add: isTestSpec_def)
  have gf: "?P x (?g (?f x))" for x
    by (cases x) (simp add: isTestSpec_def)
  have "postProcess testDataArray files = map ?f files
        \<or> postProcess testDataArray files = map (\<lambda>x. ?g (?f x)) files"
    by (simp add: postProcess_def Let_def comp_def split: option.splits)
  then show ?thesis
  proof
    assume "postProcess testDataArray files = map ?f files"
    then show ?thesis using f by (simp only: list_all2_map_same)
  next
    assume "postProcess testDataArray files = map (\<lambda>x. ?g (?f x)) files"
    then show ?thesis using gf by (simp only: list_all2_map_same)
  qed
qed

theorem postProcess_frame_witness:
  "\<not> startsWith ''pages/LoginPage.js'' ''tests/'' \<and> ''pages/LoginPage.js'' \<noteq> fixturePath
   \<and> postProcess [loginGroup] [(''pages/LoginPage.js'', ''export class LoginPage {}'')]
       = [(''pages/LoginPage.js'', ''export class LoginPage {}'')]"
proof -
  have h: "\<not> startsWith ''pages/LoginPage.js'' ''tests/''"
    "''pages/LoginPage.js'' \<noteq> fixturePath"
    by (simp_all add: startsWith_def fixturePath_def)
  from postProcess_frame [of "[(''pages/LoginPage.js'', ''export class LoginPage {}'')]"
      "[loginGroup]"] h
  show ?thesis by (auto simp: list_all2_Cons1)
qed

subsection \<open>C9\<close>

text \<open>
  C9, as amended. After any sequence of rows the carried title is the trimmed
  scenario cell of the most recent row whose scenario cell is not blank, if there is
  one. For the next row: a scenario cell that is not blank becomes the carried
  title, and the row is appended under it; a blank scenario cell leaves the carried
  title, and the row is appended under the carried title when there is one; with no
  carried title the row is dropped and the only change is the warning printed. A
  row whose title has an empty camel-case form is dropped with an error message
  instead of being appended. The loop goes on with the next row in every case.
\<close>

theorem carry_forward_grouping:
  fixes ths :: "string list" and before :: "cell list list" and rowArray :: "cell list"
  shows
  "let S = groupRows ths 0 initialState before;
       S' = groupRows ths 0 initialState (before @ [rowArray]);
       scenarioCell = (\<lambda>r. cellAt r (indexOfHeader ''Test Scenario'' ths));
       c = cellTrim (scenarioCell rowArray);
       n = length before + 2
   in lastValidScenarioTitle S =
        (case filter (\<lambda>x. cellTrim x \<noteq> []) (map scenarioCell before) of
           [] \<Rightarrow> None | cs \<Rightarrow> Some (cellTrim (last cs)))
    \<and> (c \<noteq> [] \<longrightarrow>
          lastValidScenarioTitle S' = Some c
        \<and> (toCamelCase c \<noteq> [] \<longrightarrow> appendedUnder c ths rowArray (groupedMap S) (groupedMap S'))
        \<and> (toCamelCase c = [] \<longrightarrow> groupedMap S' = groupedMap S
               \<and> printed S' = printed S @ [SkippedNoPageName n c]))
    \<and> (c = [] \<longrightarrow> (\<forall>t. lastValidScenarioTitle S = Some t \<longrightarrow>
          lastValidScenarioTitle S' = Some t
        \<and> (toCamelCase t \<noteq> [] \<longrightarrow> appendedUnder t ths rowArray (groupedMap S) (groupedMap S'))
        \<and> (toCamelCase t = [] \<longrightarrow> groupedMap S' = groupedMap S
               \<and> printed S' = printed S @ [SkippedNoPageName n t])))
    \<and> (c = [] \<and> lastValidScenarioTitle S = None \<longrightarrow>
          S' = S\<lparr>printed := printed S @ [SkippedNoScenario n]\<rparr>)"
proof -
  define S where "S = groupRows ths 0 initialState before"
  define S' where "S' = groupRows ths 0 initialState (before @ [rowArray])"
  define c where "c = cellTrim (cellAt rowArray (indexOfHeader ''Test Scenario'' ths))"
  define n where "n = length before + 2"
  have step: "S' = groupRow ths (length before) S rowArray"
    by (simp add: S'_def S_def groupRows_snoc)
  have carried: "lastValidScenarioTitle S =
        (case filter (\<lambda>x. cellTrim x \<noteq> [])
                (map (\<lambda>r. cellAt r (indexOfHeader ''Test Scenario'' ths)) before) of
           [] \<Rightarrow> None | cs \<Rightarrow> Some (cellTrim (last cs)))"
    unfolding S_def by (simp add: carried_title initialState_def split: list.splits)
  have ne: "lastValidScenarioTitle S \<noteq> Some []"
    unfolding S_def by (rule carried_nonempty) (simp add: initialState_def)
  have A: "c \<noteq> [] \<Longrightarrow> lastValidScenarioTitle S' = Some c"
    by (simp add: step groupRow_def Let_def c_def)
  have B: "c \<noteq> [] \<Longrightarrow> toCamelCase c \<noteq> [] \<Longrightarrow>
             appendedUnder c ths rowArray (groupedMap S) (groupedMap S')"
    using addRow_appended[of c ths rowArray "S\<lparr>lastValidScenarioTitle := Some c\<rparr>" n]
    by (simp add: step groupRow_def Let_def c_def n_def)
  have C: "c \<noteq> [] \<Longrightarrow> toCamelCase c = [] \<Longrightarrow>
             groupedMap S' = groupedMap S \<and> printed S' = printed S @ [SkippedNoPageName n c]"
    by (simp add: step groupRow_def Let_def c_def n_def addRow_dropped)
  have D: "c = [] \<Longrightarrow> lastValidScenarioTitle S = Some t \<Longrightarrow> lastValidScenarioTitle S' = Some t"
    for t by (simp add: step groupRow_def Let_def c_def)
  have E: "c = [] \<Longrightarrow> lastValidScenarioTitle S = Some t \<Longrightarrow> toCamelCase t \<noteq> [] \<Longrightarrow>
             appendedUnder t ths rowArray (groupedMap S) (groupedMap S')" for t
    using addRow_appended[of t ths rowArray S n] ne
    by (auto simp add: step groupRow_def Let_def c_def n_def)
  have F: "c = [] \<Longrightarrow> lastValidScenarioTitle S = Some t \<Longrightarrow> toCamelCase t = [] \<Longrightarrow>
             groupedMap S' = groupedMap S \<and> printed S' = printed S @ [SkippedNoPageName n t]" for t
    using ne by (auto simp add: step groupRow_def Let_def c_def n_def addRow_dropped)
  have G: "c = [] \<Longrightarrow> lastValidScenarioTitle S = None \<Longrightarrow>
             S' = S\<lparr>printed := printed S @ [SkippedNoScenario n]\<rparr>"
    by (simp add: step groupRow_def Let_def c_def n_def)
  show ?thesis
    unfolding Let_def S_def[symmetric] S'_def[symmetric] c_def[symmetric] n_def[symmetric]
    using carried A B C D E F G by blast
qed

theorem carry_forward_grouping_witness:
  "cellTrim (cellAt rowBlank (indexOfHeader ''Test Scenario'' (trimHeaders exampleHeaders))) = []
   \<and> lastValidScenarioTitle (groupRows (trimHeaders exampleHeaders) 0 initialState [rowLogin])
       = Some ''Login''
   \<and> toCamelCase ''Login'' \<noteq> []
   \<and> appendedUnder ''Login'' (trimHeaders exampleHeaders) rowBlank
       (groupedMap (groupRows (trimHeaders exampleHeaders) 0 initialState [rowLogin]))
       (groupedMap (groupRows (trimHeaders exampleHeaders) 0 initialState ([rowLogin] @ [rowBlank])))
   \<and> lastValidScenarioTitle (groupRows (trimHeaders exampleHeaders) 0 initialState []) = None
   \<and> groupRows (trimHeaders exampleHeaders) 0 initialState ([] @ [rowBlank])
       = initialState\<lparr>printed := [SkippedNoScenario 2]\<rparr>
   \<and> cellTrim (cellAt rowLogin (indexOfHeader ''Test Scenario'' (trimHeaders exampleHeaders)))
       = ''Login''
   \<and> appendedUnder ''Login'' (trimHeaders exampleHeaders) rowLogin []
       (groupedMap (groupRows (trimHeaders exampleHeaders) 0 initialState ([] @ [rowLogin])))"
proof -
  have h1: "cellTrim (cellAt rowBlank
              (indexOfHeader ''Test Scenario'' (trimHeaders exampleHeaders))) = []"
    by code_simp
  have h2: "lastValidScenarioTitle
              (groupRows (trimHeaders exampleHeaders) 0 initialState [rowLogin]) = Some ''Login''"
    by code_simp
  have h3: "toCamelCase ''Login'' \<noteq> []"
    by code_simp
  have h4: "cellTrim (cellAt rowLogin
              (indexOfHeader ''Test Scenario'' (trimHeaders exampleHeaders))) = ''Login''"
    by code_simp
  have h5: "groupRows (trimHeaders exampleHeaders) 0 initialState [] = initialState"
    by simp
  have h6: "lastValidScenarioTitle initialState = None" "printed initialState = []"
    "groupedMap initialState = []"
    by (simp_all add: initialState_def)
  note a = carry_forward_grouping [of "trimHeaders exampleHeaders" "[rowLogin]" rowBlank,
              unfolded Let_def]
  note b = carry_forward_grouping [of "trimHeaders exampleHeaders" "[]" rowBlank,
              unfolded Let_def]
  note c = carry_forward_grouping [of "trimHeaders exampleHeaders" "[]" rowLogin,
              unfolded Let_def]
  have A: "appendedUnder ''Login'' (trimHeaders exampleHeaders) rowBlank
       (groupedMap (groupRows (trimHeaders exampleHeaders) 0 initialState [rowLogin]))
       (groupedMap (groupRows (trimHeaders exampleHeaders) 0 initialState ([rowLogin] @ [rowBlank])))"
    using a h1 h2 h3 by blast
  have B: "groupRows (trimHeaders exampleHeaders) 0 initialState ([] @ [rowBlank])
       = initialState\<lparr>printed := [SkippedNoScenario 2]\<rparr>"
    using b h1 h5 h6 by simp
  have C: "appendedUnder ''Login'' (trimHeaders exampleHeaders) rowLogin []
       (groupedMap (groupRows (trimHeaders exampleHeaders) 0 initialState ([] @ [rowLogin])))"
    using c h3 h4 h5 h6 by simp
  show ?thesis using h1 h2 h3 h4 h5 h6 A B C by simp
qed

text \<open>
  C9, as stated, fails: a row whose scenario cell is not empty is not always grouped.
  The title \<open>!!!\<close> has no letter or digit, its camel-case form is empty, and the
  parser drops the row: no group is made.
\<close>

theorem carry_forward_grouping_counterexample:
  "cellTrim (cellAt rowBang (indexOfHeader ''Test Scenario'' (trimHeaders exampleHeaders))) = ''!!!''
   \<and> parseExcelToJSON [exampleHeaders, rowBang]
       = Inr ([], [SkippedNoPageName 2 ''!!!'', NothingGrouped])"
  by code_simp

subsection \<open>C10\<close>


end
